theory Spec2Isabelle
  imports Main "HOL-Library.Sublist"
begin

section \<open>Python values\<close>

text \<open>
  A Python \<^verbatim>\<open>str\<close> is a sequence of Unicode code points, and \<^verbatim>\<open>len\<close> counts code
  points.  The emoji of \<^verbatim>\<open>check_style_elements\<close> lie far outside one byte, so a string is
  a list of code points here, not a list of 8-bit characters.  The literals of the source
  are all ASCII and are written with \<open>lit\<close>.
\<close>

type_synonym str = "nat list"

definition lit :: "string \<Rightarrow> str" where
  "lit s = map of_char s"

text \<open>The values that occur in the dictionaries of \<^verbatim>\<open>tools.py\<close>.\<close>

datatype pyval = VStr str | VInt int | VList "str list"

text \<open>A dictionary literal, in the order in which its keys are written.\<close>

type_synonym pydict = "(string \<times> pyval) list"

text \<open>\<^verbatim>\<open>sub in s\<close> on strings: \<open>sub\<close> occurs in \<open>s\<close> as a contiguous run.\<close>

fun startswith :: "str \<Rightarrow> str \<Rightarrow> bool" where
  "startswith s [] = True"
| "startswith [] (c # sub) = False"
| "startswith (d # s) (c # sub) = (d = c \<and> startswith s sub)"

fun str_in :: "str \<Rightarrow> str \<Rightarrow> bool" where
  "str_in sub [] = (sub = [])"
| "str_in sub (d # s) = (startswith (d # s) sub \<or> str_in sub s)"

text \<open>Truthiness of a string, as \<^verbatim>\<open>any\<close> tests it: only the empty string is false.\<close>

definition truthy :: "str \<Rightarrow> bool" where
  "truthy s = (s \<noteq> [])"

text \<open>Iterating over a string yields its characters, each a string of length one.\<close>

definition chars :: "str \<Rightarrow> str list" where
  "chars s = map (\<lambda>c. [c]) s"

text \<open>Decimal rendering of an integer, as an f-string inserts it.\<close>

fun str_nat :: "nat \<Rightarrow> string" where
  "str_nat n =
     (if n < 10 then [''0123456789'' ! n]
      else str_nat (n div 10) @ [''0123456789'' ! (n mod 10)])"

declare str_nat.simps [simp del]

definition py_str :: "int \<Rightarrow> string" where
  "py_str i = (if i < 0 then CHR ''-'' # str_nat (nat (- i)) else str_nat (nat i))"

text \<open>
  \<^verbatim>\<open>str.lower\<close> is the full Unicode lower-casing of the Python runtime: its table is not
  part of the repository, it depends on the Unicode version, and it is not a map on single
  characters (a final sigma depends on its context, U+0130 becomes two code points).  The
  validators therefore take it as the parameter \<open>lower\<close>, and every theorem about them
  holds for whatever function it is.  On ASCII text, and on text whose other code points
  have no case (the emoji below), \<^verbatim>\<open>str.lower\<close> is \<open>ascii_lower\<close>: the concrete runs
  of this theory use such text only.
\<close>

definition ascii_lower_char :: "nat \<Rightarrow> nat" where
  "ascii_lower_char c = (if 0x41 \<le> c \<and> c \<le> 0x5A then c + 0x20 else c)"

definition ascii_lower :: "str \<Rightarrow> str" where
  "ascii_lower s = map ascii_lower_char s"

section \<open>The tool context\<close>

text \<open>
  Of the framework's \<^verbatim>\<open>ToolContext\<close> the tools use two things: the session state, a
  dictionary that they write with \<^verbatim>\<open>tool_context.state[key] = value\<close>, and the flag
  \<^verbatim>\<open>tool_context.actions.escalate\<close>.
\<close>

record event_actions =
  escalate :: bool

record tool_context =
  state :: "string \<rightharpoonup> pyval"
  actions :: event_actions

text \<open>
  What one call of a tool does: the dictionary it returns, the context as the call leaves
  it, and the arguments of its \<^verbatim>\<open>print\<close> calls, in order.
\<close>

record tool_call =
  returned :: pydict
  ctx :: tool_context
  printed :: "str list"

section \<open>The tools of the post reviewer (tools.py)\<close>

definition MIN_LENGTH :: int where
  "MIN_LENGTH = 1000"

definition MAX_LENGTH :: int where
  "MAX_LENGTH = 1500"

definition count_characters :: "str \<Rightarrow> tool_context \<Rightarrow> tool_call" where
  "count_characters text tool_context =
    (let char_count = int (length text);
         out = [lit (CHR 0x0A # ''----------- TOOL DEBUG -----------''),
                lit (''Checking text length: '' @ py_str char_count @ '' characters''),
                lit (''----------------------------------'' @ [CHR 0x0A])]
     in
       if char_count < MIN_LENGTH then
         (let chars_needed = MIN_LENGTH - char_count in
          \<lparr> returned =
              [(''result'', VStr (lit ''fail'')),
               (''char_count'', VInt char_count),
               (''chars_needed'', VInt chars_needed),
               (''message'', VStr (lit (''Post is too short. Add '' @ py_str chars_needed
                   @ '' more characters to reach minimum length of '' @ py_str MIN_LENGTH
                   @ ''.'')))],
            ctx = tool_context
              \<lparr> state := (state tool_context)(''review_status'' \<mapsto> VStr (lit ''fail'')) \<rparr>,
            printed = out \<rparr>)
       else if char_count > MAX_LENGTH then
         (let chars_to_remove = char_count - MAX_LENGTH in
          \<lparr> returned =
              [(''result'', VStr (lit ''fail'')),
               (''char_count'', VInt char_count),
               (''chars_to_remove'', VInt chars_to_remove),
               (''message'', VStr (lit (''Post is too long. Remove '' @ py_str chars_to_remove
                   @ '' characters to meet maximum length of '' @ py_str MAX_LENGTH
                   @ ''.'')))],
            ctx = tool_context
              \<lparr> state := (state tool_context)(''review_status'' \<mapsto> VStr (lit ''fail'')) \<rparr>,
            printed = out \<rparr>)
       else
          \<lparr> returned =
              [(''result'', VStr (lit ''pass'')),
               (''char_count'', VInt char_count),
               (''message'', VStr (lit (''Post length is good ('' @ py_str char_count
                   @ '' characters).'')))],
            ctx = tool_context
              \<lparr> state := (state tool_context)(''review_status'' \<mapsto> VStr (lit ''pass'')) \<rparr>,
            printed = out \<rparr>)"


definition adk_capabilities :: "str list" where
  "adk_capabilities =
    [lit ''basic agent implementation'',
     lit ''tool integration'',
     lit ''LiteLLM'',
     lit ''sessions and memory'',
     lit ''persistent storage'',
     lit ''multi-agent orchestration'',
     lit ''stateful multi-agent systems'',
     lit ''callback systems'',
     lit ''sequential agents'',
     lit ''parallel agents'',
     lit ''loop agents'']"

definition call_to_action_keywords :: "str list" where
  "call_to_action_keywords =
    [lit ''connect with me'', lit ''follow me'', lit ''learn more'', lit ''get in touch'']"

definition practical_application_keywords :: "str list" where
  "practical_application_keywords =
    [lit ''real-world'', lit ''practical'', lit ''applications'', lit ''use cases'']"

definition enthusiasm_keywords :: "str list" where
  "enthusiasm_keywords =
    [lit ''excited'', lit ''thrilled'', lit ''love'', lit ''amazing'', lit ''fantastic'',
     lit ''great'']"

definition check_content_elements :: "(str \<Rightarrow> str) \<Rightarrow> str \<Rightarrow> tool_context \<Rightarrow> tool_call" where
  "check_content_elements lower text tool_context =
    (let missing_elements = [];
         missing_elements =
           (if \<not> str_in (lit ''@aiwithbrandon'') text
            then missing_elements @ [lit ''Mentions @aiwithbrandon'']
            else missing_elements);
         found_capabilities =
           filter (\<lambda>cap. str_in (lower cap) (lower text)) adk_capabilities;
         missing_elements =
           (if length found_capabilities < 4
            then missing_elements @ [lit ''Lists at least 4 ADK capabilities'']
            else missing_elements);
         missing_elements =
           (if \<not> list_ex (\<lambda>keyword. str_in keyword (lower text)) call_to_action_keywords
            then missing_elements @ [lit ''Has a clear call-to-action'']
            else missing_elements);
         missing_elements =
           (if \<not> list_ex (\<lambda>keyword. str_in keyword (lower text))
                   practical_application_keywords
            then missing_elements @ [lit ''Includes practical applications'']
            else missing_elements);
         missing_elements =
           (if \<not> list_ex (\<lambda>keyword. str_in keyword (lower text)) enthusiasm_keywords
            then missing_elements @ [lit ''Shows genuine enthusiasm'']
            else missing_elements)
     in
       if missing_elements \<noteq> [] then
          \<lparr> returned =
              [(''result'', VStr (lit ''fail'')),
               (''missing_elements'', VList missing_elements),
               (''message'',
                  VStr (lit ''The post is missing some required content elements.''))],
            ctx = tool_context
              \<lparr> state := (state tool_context)(''review_status'' \<mapsto> VStr (lit ''fail'')) \<rparr>,
            printed = [] \<rparr>
       else
          \<lparr> returned =
              [(''result'', VStr (lit ''pass'')),
               (''missing_elements'', VList []),
               (''message'', VStr (lit ''All required content elements are present.''))],
            ctx = tool_context,
            printed = [] \<rparr>)"

text \<open>
  The characters of the string literal of the emoji check, in the order of the source.
  U+FE0F (a variation selector) and U+1FAE0 occur twice in it.
\<close>

definition emoji_chars :: str where
  "emoji_chars =
    [0x1F600, 0x1F603, 0x1F604, 0x1F601, 0x1F606, 0x1F605, 0x1F602, 0x1F923,
     0x1F972, 0x1F60A, 0x1F607, 0x1F642, 0x1F643, 0x1F609, 0x1F60C, 0x1F60D,
     0x1F970, 0x1F618, 0x1F617, 0x1F619, 0x1F61A, 0x1F60B, 0x1F61B, 0x1F61D,
     0x1F61C, 0x1F92A, 0x1F928, 0x1F9D0, 0x1F913, 0x1F60E, 0x1F978, 0x1F929,
     0x1F973, 0x1F60F, 0x1F612, 0x1F61E, 0x1F614, 0x1F61F, 0x1F615, 0x1F641,
     0x2639, 0xFE0F, 0x1F623, 0x1F616, 0x1F62B, 0x1F629, 0x1F97A, 0x1F622,
     0x1F62D, 0x1F624, 0x1F620, 0x1F621, 0x1F92C, 0x1F92F, 0x1F633, 0x1F975,
     0x1F976, 0x1F631, 0x1F628, 0x1F630, 0x1F625, 0x1F613, 0x1F917, 0x1F914,
     0x1FAE3, 0x1F92B, 0x1FAE0, 0x1F925, 0x1F636, 0x1FAE5, 0x1F610, 0x1F611,
     0x1FAE8, 0x1F62C, 0x1FAE0, 0x1F644, 0x1F62F, 0x1F626, 0x1F627, 0x1F62E,
     0x1F632, 0x1F971, 0x1F634, 0x1F924, 0x1F62A, 0x1F635, 0x1F4AB, 0x1F910,
     0x1F974, 0x1F922, 0x1F92E, 0x1F927, 0x1F637, 0x1F912, 0x1F915, 0x1F911,
     0x1F920, 0x1F608, 0x1F47F, 0x1F479, 0x1F47A, 0x1F921, 0x1F4A9, 0x1F47B,
     0x1F480, 0x2620, 0xFE0F, 0x1F47D, 0x1F47E, 0x1F916, 0x1F383, 0x1F63A,
     0x1F638, 0x1F639, 0x1F63B, 0x1F63C, 0x1F63D, 0x1F640, 0x1F63F, 0x1F63E]"

definition informal_keywords :: "str list" where
  "informal_keywords =
    [lit ''lol'', lit ''lmao'', lit ''btw'', lit ''ikr'', lit ''omg'', lit ''wtf'']"

definition check_style_elements :: "(str \<Rightarrow> str) \<Rightarrow> str \<Rightarrow> tool_context \<Rightarrow> tool_call" where
  "check_style_elements lower text tool_context =
    (let style_issues = [];
         style_issues =
           (if list_ex truthy (filter (\<lambda>char. str_in char emoji_chars) (chars text))
            then style_issues @ [lit ''NO emojis'']
            else style_issues);
         style_issues =
           (if str_in (lit ''#'') text
            then style_issues @ [lit ''NO hashtags'']
            else style_issues);
         style_issues =
           (if list_ex (\<lambda>keyword. str_in keyword (lower text)) informal_keywords
            then style_issues @ [lit ''Professional tone (avoid informal language)'']
            else style_issues)
     in
       if style_issues \<noteq> [] then
          \<lparr> returned =
              [(''result'', VStr (lit ''fail'')),
               (''issues'', VList style_issues),
               (''message'', VStr (lit ''The post has some style issues.''))],
            ctx = tool_context
              \<lparr> state := (state tool_context)(''review_status'' \<mapsto> VStr (lit ''fail'')) \<rparr>,
            printed = [] \<rparr>
       else
          \<lparr> returned =
              [(''result'', VStr (lit ''pass'')),
               (''issues'', VList []),
               (''message'', VStr (lit ''All style requirements are met.''))],
            ctx = tool_context,
            printed = [] \<rparr>)"

text \<open>Reading a key of a returned dictionary.\<close>

definition get :: "pydict \<Rightarrow> string \<Rightarrow> pyval option" where
  "get d k = map_of d k"

text \<open>
  A list that holds a name when a condition holds.  The two checks build their lists by
  appending such pieces (lemmas \<open>check_content_elements_flat\<close> and
  \<open>check_style_elements_flat\<close>).
\<close>

definition listed :: "bool \<Rightarrow> str \<Rightarrow> str list" where
  "listed b name = (if b then [name] else [])"

section \<open>The agents (agent.py)\<close>


section \<open>The refinement loop\<close>

text \<open>
  Modelled from the spec: the output of one review (section 4.2), which is ``exactly one
  of: feedback text (loop continues) or a termination signal plus a completion message
  (loop stops)''.  The code that turns a run of the reviewer into this output is part of
  the framework and not among the source files.
\<close>

datatype review_output = Feedback_text str | Termination_signal str


text \<open>
  Modelled from the spec: the \<open>LoopState\<close> of section 3 (topic, current post, last review
  feedback, iteration count, termination flag); the loop agent of the repository is not
  among the source files.
\<close>

record LoopState =
  topic :: str
  current_post :: str
  last_feedback :: "str option"
  iteration_count :: nat
  termination_flag :: bool

text \<open>
  Modelled from the spec: how a run of the loop ends (sections 4.4 and 7): accepted, not
  accepted because the iteration cap is used up, or ended by a capability failure.
\<close>

datatype loop_outcome = Accepted | Not_accepted | Capability_failure

text \<open>
  Modelled from the spec: the loop itself (section 4.4), which is not among the source
  files.  One iteration generates a draft from the topic and the last feedback, then
  reviews it.  The loop stops as accepted when the review raises the termination signal,
  goes on generating with the feedback otherwise, and stops as not accepted when the
  iteration cap is used up.  A capability that fails (\<open>None\<close>) ends the run.  The third
  argument is the number of iterations that the cap still allows.
\<close>

fun refinement_loop ::
    "(str \<Rightarrow> str option \<Rightarrow> str option)
      \<Rightarrow> (str \<Rightarrow> review_output option)
      \<Rightarrow> nat \<Rightarrow> LoopState \<Rightarrow> loop_outcome \<times> LoopState" where
  "refinement_loop generate reviewing 0 s = (Not_accepted, s)"
| "refinement_loop generate reviewing (Suc remaining) s =
    (case generate (topic s) (last_feedback s) of
       None \<Rightarrow> (Capability_failure, s)
     | Some post \<Rightarrow>
        (case reviewing post of
           None \<Rightarrow> (Capability_failure, s \<lparr> current_post := post \<rparr>)
         | Some (Termination_signal message) \<Rightarrow>
            (Accepted,
             s \<lparr> current_post := post,
                 last_feedback := Some message,
                 iteration_count := Suc (iteration_count s),
                 termination_flag := True \<rparr>)
         | Some (Feedback_text fb) \<Rightarrow>
            refinement_loop generate reviewing remaining
              (s \<lparr> current_post := post,
                   last_feedback := Some fb,
                   iteration_count := Suc (iteration_count s),
                   termination_flag := False \<rparr>)))"


section \<open>Concrete sessions and drafts\<close>

text \<open>A session with an empty state in which no escalation has been requested.\<close>

definition fresh_context :: tool_context where
  "fresh_context = \<lparr> state = Map.empty, actions = \<lparr> escalate = False \<rparr> \<rparr>"

text \<open>
  A session that holds a topic and in which an earlier check has recorded a failure.
\<close>

definition session_context :: tool_context where
  "session_context =
    \<lparr> state = [''topic'' \<mapsto> VStr (lit ''Agent Development Kit''),
               ''review_status'' \<mapsto> VStr (lit ''fail'')],
      actions = \<lparr> escalate = False \<rparr> \<rparr>"

text \<open>A draft without the mention and without a word of enthusiasm.\<close>

definition draft_two_missing :: str where
  "draft_two_missing =
    lit ''Learn more about tool integration, LiteLLM, sessions and memory and Loop Agents in real-world use.''"

text \<open>A draft with every required element, and none that the style check rejects.\<close>

definition draft_complete :: str where
  "draft_complete =
    lit ''Excited to share what @aiwithbrandon taught me: tool integration, LiteLLM, sessions and memory, Persistent Storage and loop agents in real-world use. Learn more!''"

text \<open>The same draft with a hashtag, and a short one with an emoji (U+1F600).\<close>

definition draft_hashtag :: str where
  "draft_hashtag = draft_complete @ lit '' #growth''"

definition draft_emoji :: str where
  "draft_emoji = lit ''Great news '' @ [0x1F600]"

text \<open>A draft that writes the mention with capitals.\<close>

definition draft_capitals :: str where
  "draft_capitals = lit ''Follow @AIwithBrandon to learn more about TOOL INTEGRATION.''"

text \<open>A short draft with an informal token in capitals.\<close>

definition draft_informal :: str where
  "draft_informal = lit ''OMG, loop agents are great''"

text \<open>A draft of 1061 characters: the complete draft padded with full stops.\<close>

definition draft_long :: str where
  "draft_long = draft_complete @ replicate 900 0x2E"







section \<open>Strings: basic facts\<close>

lemma lit_eq_iff [simp]: "lit a = lit b \<longleftrightarrow> a = b"
proof -
  have "inj (of_char :: char \<Rightarrow> nat)"
    by (rule inj_of_char)
  then have "inj (map (of_char :: char \<Rightarrow> nat))"
    by (simp only: inj_map)
  then show ?thesis
    unfolding lit_def by (auto dest: injD)
qed

lemma lit_Nil_iff [simp]: "lit a = [] \<longleftrightarrow> a = []"
  by (simp add: lit_def)

lemma startswith_prefix: "startswith s sub \<longleftrightarrow> prefix sub s"
  by (induction s sub rule: startswith.induct) auto

lemma str_in_sublist: "str_in sub s \<longleftrightarrow> sublist sub s"
proof (induction s)
  case Nil
  then show ?case by simp
next
  case (Cons d s)
  show ?case
  proof (cases sub)
    case Nil
    then show ?thesis by simp
  next
    case (Cons c sub')
    with Cons.IH show ?thesis
      by (simp add: startswith_prefix sublist_Cons_right)
  qed
qed

lemma str_in_char: "str_in [c] s \<longleftrightarrow> c \<in> set s"
  by (induction s) auto

section \<open>The lists of the two checks\<close>

lemma append_listed: "(if b then xs @ [name] else xs) = xs @ listed b name"
  by (simp add: listed_def)

lemma in_listed [simp]: "n \<in> set (listed b name) \<longleftrightarrow> b \<and> n = name"
  by (auto simp: listed_def)

lemma listed_Nil [simp]: "listed b name = [] \<longleftrightarrow> \<not> b"
  by (simp add: listed_def)

lemma distinct_listed [simp]:
  "distinct (listed b name @ ys) \<longleftrightarrow> (b \<longrightarrow> name \<notin> set ys) \<and> distinct ys"
  by (auto simp: listed_def)

lemma listed_subset [simp]: "set (listed b name) \<subseteq> S \<longleftrightarrow> (b \<longrightarrow> name \<in> S)"
  by (auto simp: listed_def)

lemma listed_disjoint [simp]: "set (listed b name) \<inter> S = {} \<longleftrightarrow> (b \<longrightarrow> name \<notin> S)"
  by (auto simp: listed_def)

lemma distinct_listed_single [simp]: "distinct (listed b name)"
  by (simp add: listed_def)

lemma check_content_elements_flat:
  "check_content_elements lower text tool_context =
    (let missing_elements =
           listed (\<not> str_in (lit ''@aiwithbrandon'') text) (lit ''Mentions @aiwithbrandon'')
         @ listed (length (filter (\<lambda>cap. str_in (lower cap) (lower text)) adk_capabilities) < 4)
             (lit ''Lists at least 4 ADK capabilities'')
         @ listed (\<not> list_ex (\<lambda>keyword. str_in keyword (lower text)) call_to_action_keywords)
             (lit ''Has a clear call-to-action'')
         @ listed (\<not> list_ex (\<lambda>keyword. str_in keyword (lower text))
                      practical_application_keywords)
             (lit ''Includes practical applications'')
         @ listed (\<not> list_ex (\<lambda>keyword. str_in keyword (lower text)) enthusiasm_keywords)
             (lit ''Shows genuine enthusiasm'')
     in
       if missing_elements \<noteq> [] then
          \<lparr> returned =
              [(''result'', VStr (lit ''fail'')),
               (''missing_elements'', VList missing_elements),
               (''message'',
                  VStr (lit ''The post is missing some required content elements.''))],
            ctx = tool_context
              \<lparr> state := (state tool_context)(''review_status'' \<mapsto> VStr (lit ''fail'')) \<rparr>,
            printed = [] \<rparr>
       else
          \<lparr> returned =
              [(''result'', VStr (lit ''pass'')),
               (''missing_elements'', VList []),
               (''message'', VStr (lit ''All required content elements are present.''))],
            ctx = tool_context,
            printed = [] \<rparr>)"
  unfolding check_content_elements_def append_listed
  by (simp only: Let_def append_Nil append_assoc)


lemma check_style_elements_flat:
  "check_style_elements lower text tool_context =
    (let style_issues =
           listed (list_ex truthy (filter (\<lambda>char. str_in char emoji_chars) (chars text)))
             (lit ''NO emojis'')
         @ listed (str_in (lit ''#'') text) (lit ''NO hashtags'')
         @ listed (list_ex (\<lambda>keyword. str_in keyword (lower text)) informal_keywords)
             (lit ''Professional tone (avoid informal language)'')
     in
       if style_issues \<noteq> [] then
          \<lparr> returned =
              [(''result'', VStr (lit ''fail'')),
               (''issues'', VList style_issues),
               (''message'', VStr (lit ''The post has some style issues.''))],
            ctx = tool_context
              \<lparr> state := (state tool_context)(''review_status'' \<mapsto> VStr (lit ''fail'')) \<rparr>,
            printed = [] \<rparr>
       else
          \<lparr> returned =
              [(''result'', VStr (lit ''pass'')),
               (''issues'', VList []),
               (''message'', VStr (lit ''All style requirements are met.''))],
            ctx = tool_context,
            printed = [] \<rparr>)"
  unfolding check_style_elements_def append_listed
  by (simp only: Let_def append_Nil append_assoc)

lemma sublist_str_in: "sublist sub s \<longleftrightarrow> str_in sub s"
  by (simp add: str_in_sublist)

lemma bex_keyword:
  "(\<exists>k\<in>set ks. str_in k s) \<longleftrightarrow> list_ex (\<lambda>keyword. str_in keyword s) ks"
  by (simp add: list_ex_iff)

lemma distinct_adk_capabilities: "distinct adk_capabilities"
  by (simp add: adk_capabilities_def)


lemma card_found_capabilities:
  "card {cap \<in> set adk_capabilities. P cap} = length (filter P adk_capabilities)"
proof -
  have "distinct (filter P adk_capabilities)"
    using distinct_adk_capabilities by simp
  from distinct_card [OF this] show ?thesis by simp
qed

lemma emoji_check:
  "set text \<inter> set emoji_chars \<noteq> {}
     \<longleftrightarrow> list_ex truthy (filter (\<lambda>char. str_in char emoji_chars) (chars text))"
  by (auto simp: list_ex_iff chars_def truthy_def str_in_char)

lemma hashtag_check: "of_char CHR ''#'' \<in> set text \<longleftrightarrow> str_in (lit ''#'') text"
  by (simp add: lit_def str_in_char)

section \<open>Runs on the drafts\<close>

text \<open>
  The checks evaluated on the concrete drafts, with \<open>ascii_lower\<close> for \<^verbatim>\<open>str.lower\<close>.
  For each draft the outcome of every single search is established first, then the
  dictionary that the check returns.
\<close>

lemmas run_defs =
  call_to_action_keywords_def practical_application_keywords_def enthusiasm_keywords_def
  informal_keywords_def lit_def ascii_lower_def ascii_lower_char_def

lemma any_flags: "list_ex P xs \<longleftrightarrow> True \<in> set (map P xs)"
  by (auto simp: list_ex_iff)

lemma count_flags:
  "length (filter (\<lambda>cap. str_in (lower cap) t) caps)
     = length (filter (\<lambda>b. b) (map (\<lambda>k. str_in k t) (map lower caps)))"
  by (simp add: filter_map comp_def)

lemma lowered_capabilities:
  "map ascii_lower adk_capabilities =
    [lit ''basic agent implementation'', lit ''tool integration'', lit ''litellm'',
     lit ''sessions and memory'', lit ''persistent storage'',
     lit ''multi-agent orchestration'', lit ''stateful multi-agent systems'',
     lit ''callback systems'', lit ''sequential agents'', lit ''parallel agents'',
     lit ''loop agents'']"
  by (simp add: adk_capabilities_def lit_def ascii_lower_def ascii_lower_char_def)

lemma two_missing_flags:
  "str_in (lit ''@aiwithbrandon'') draft_two_missing = False"
  "map (\<lambda>k. str_in k (ascii_lower draft_two_missing)) (map ascii_lower adk_capabilities)
     = [False, True, True, True, False, False, False, False, False, False, True]"
  "map (\<lambda>keyword. str_in keyword (ascii_lower draft_two_missing)) call_to_action_keywords
     = [False, False, True, False]"
  "map (\<lambda>keyword. str_in keyword (ascii_lower draft_two_missing))
     practical_application_keywords = [True, False, False, False]"
  "map (\<lambda>keyword. str_in keyword (ascii_lower draft_two_missing)) enthusiasm_keywords
     = [False, False, False, False, False, False]"
  unfolding lowered_capabilities
  by (simp_all add: run_defs draft_two_missing_def)

lemma run_two_missing:
  "check_content_elements ascii_lower draft_two_missing tool_context =
    \<lparr> returned =
        [(''result'', VStr (lit ''fail'')),
         (''missing_elements'',
            VList [lit ''Mentions @aiwithbrandon'', lit ''Shows genuine enthusiasm'']),
         (''message'', VStr (lit ''The post is missing some required content elements.''))],
      ctx = tool_context
        \<lparr> state := (state tool_context)(''review_status'' \<mapsto> VStr (lit ''fail'')) \<rparr>,
      printed = [] \<rparr>"
  unfolding check_content_elements_flat any_flags count_flags two_missing_flags
  by (simp add: listed_def)


lemma complete_flags:
  "str_in (lit ''@aiwithbrandon'') draft_complete = True"
  "map (\<lambda>k. str_in k (ascii_lower draft_complete)) (map ascii_lower adk_capabilities)
     = [False, True, True, True, True, False, False, False, False, False, True]"
  "map (\<lambda>keyword. str_in keyword (ascii_lower draft_complete)) call_to_action_keywords
     = [False, False, True, False]"
  "map (\<lambda>keyword. str_in keyword (ascii_lower draft_complete))
     practical_application_keywords = [True, False, False, False]"
  "map (\<lambda>keyword. str_in keyword (ascii_lower draft_complete)) enthusiasm_keywords
     = [True, False, False, False, False, False]"
  unfolding lowered_capabilities
  by (simp_all add: run_defs draft_complete_def)

lemma run_complete_content:
  "check_content_elements ascii_lower draft_complete tool_context =
    \<lparr> returned =
        [(''result'', VStr (lit ''pass'')),
         (''missing_elements'', VList []),
         (''message'', VStr (lit ''All required content elements are present.''))],
      ctx = tool_context,
      printed = [] \<rparr>"
  unfolding check_content_elements_flat any_flags count_flags complete_flags
  by (simp add: listed_def)

lemma emoji_chars_ge: "\<forall>e \<in> set emoji_chars. 0x2620 \<le> e"
  by (simp add: emoji_chars_def)

lemma no_emoji:
  assumes "\<forall>c \<in> set text. c < 0x2620"
  shows "list_ex truthy (filter (\<lambda>char. str_in char emoji_chars) (chars text)) = False"
proof -
  have "\<not> set text \<inter> set emoji_chars \<noteq> {}"
    using assms emoji_chars_ge by fastforce
  then show ?thesis
    unfolding emoji_check by simp
qed

lemma lit_small: "\<forall>c \<in> set (lit s). c < 0x2620"
proof
  fix c assume "c \<in> set (lit s)"
  then obtain x where c: "c = of_char x"
    by (auto simp: lit_def)
  have "(of_char x :: nat) < 256"
    by (rule nat_of_char_less_256)
  then have "(of_char x :: nat) < 0x2620"
    by linarith
  with c show "c < 0x2620" by simp
qed

lemma no_emoji_lit:
  "list_ex truthy (filter (\<lambda>char. str_in char emoji_chars) (chars (lit s))) = False"
  by (rule no_emoji) (rule lit_small)

lemma hashtag_lit: "str_in (lit ''#'') (lit s) \<longleftrightarrow> CHR ''#'' \<in> set s"
proof -
  have "lit ''#'' = [of_char CHR ''#'']"
    by (simp only: lit_def list.map)
  then have "str_in (lit ''#'') (lit s) \<longleftrightarrow> of_char CHR ''#'' \<in> (of_char ` set s :: nat set)"
    by (simp only: str_in_char lit_def set_map)
  also have "\<dots> \<longleftrightarrow> CHR ''#'' \<in> set s"
    by (rule inj_image_mem_iff [OF inj_of_char])
  finally show ?thesis .
qed

lemma lit_append: "lit a @ lit b = lit (a @ b)"
  by (simp add: lit_def)

lemma hashtag_flags:
  "list_ex truthy (filter (\<lambda>char. str_in char emoji_chars) (chars draft_hashtag)) = False"
  "str_in (lit ''#'') draft_hashtag = True"
  "map (\<lambda>keyword. str_in keyword (ascii_lower draft_hashtag)) informal_keywords
     = [False, False, False, False, False, False]"
proof -
  show "list_ex truthy (filter (\<lambda>char. str_in char emoji_chars) (chars draft_hashtag)) = False"
    unfolding draft_hashtag_def draft_complete_def lit_append by (rule no_emoji_lit)
  show "str_in (lit ''#'') draft_hashtag = True"
    unfolding draft_hashtag_def draft_complete_def lit_append hashtag_lit by simp
  show "map (\<lambda>keyword. str_in keyword (ascii_lower draft_hashtag)) informal_keywords
     = [False, False, False, False, False, False]"
    by (simp add: run_defs draft_hashtag_def draft_complete_def)
qed

lemma complete_style_flags:
  "list_ex truthy (filter (\<lambda>char. str_in char emoji_chars) (chars draft_complete)) = False"
  "str_in (lit ''#'') draft_complete = False"
  "map (\<lambda>keyword. str_in keyword (ascii_lower draft_complete)) informal_keywords
     = [False, False, False, False, False, False]"
proof -
  show "list_ex truthy (filter (\<lambda>char. str_in char emoji_chars) (chars draft_complete)) = False"
    unfolding draft_complete_def by (rule no_emoji_lit)
  show "str_in (lit ''#'') draft_complete = False"
    unfolding draft_complete_def hashtag_lit by simp
  show "map (\<lambda>keyword. str_in keyword (ascii_lower draft_complete)) informal_keywords
     = [False, False, False, False, False, False]"
    by (simp add: run_defs draft_complete_def)
qed

lemma emoji_flags:
  "list_ex truthy (filter (\<lambda>char. str_in char emoji_chars) (chars draft_emoji)) = True"
  "str_in (lit ''#'') draft_emoji = False"
  "map (\<lambda>keyword. str_in keyword (ascii_lower draft_emoji)) informal_keywords
     = [False, False, False, False, False, False]"
proof -
  have "0x1F600 \<in> set draft_emoji" and "0x1F600 \<in> set emoji_chars"
    by (simp_all add: draft_emoji_def emoji_chars_def)
  then have "set draft_emoji \<inter> set emoji_chars \<noteq> {}"
    by blast
  then show "list_ex truthy (filter (\<lambda>char. str_in char emoji_chars) (chars draft_emoji)) = True"
    unfolding emoji_check by simp
  show "str_in (lit ''#'') draft_emoji = False"
    by (simp add: draft_emoji_def lit_def)
  show "map (\<lambda>keyword. str_in keyword (ascii_lower draft_emoji)) informal_keywords
     = [False, False, False, False, False, False]"
    by (simp add: run_defs draft_emoji_def)
qed

lemma informal_flags:
  "list_ex truthy (filter (\<lambda>char. str_in char emoji_chars) (chars draft_informal)) = False"
  "str_in (lit ''#'') draft_informal = False"
  "map (\<lambda>keyword. str_in keyword (ascii_lower draft_informal)) informal_keywords
     = [False, False, False, False, True, False]"
proof -
  show "list_ex truthy (filter (\<lambda>char. str_in char emoji_chars) (chars draft_informal)) = False"
    unfolding draft_informal_def by (rule no_emoji_lit)
  show "str_in (lit ''#'') draft_informal = False"
    unfolding draft_informal_def hashtag_lit by simp
  show "map (\<lambda>keyword. str_in keyword (ascii_lower draft_informal)) informal_keywords
     = [False, False, False, False, True, False]"
    by (simp add: run_defs draft_informal_def)
qed

lemma run_hashtag:
  "check_style_elements ascii_lower draft_hashtag tool_context =
    \<lparr> returned =
        [(''result'', VStr (lit ''fail'')),
         (''issues'', VList [lit ''NO hashtags'']),
         (''message'', VStr (lit ''The post has some style issues.''))],
      ctx = tool_context
        \<lparr> state := (state tool_context)(''review_status'' \<mapsto> VStr (lit ''fail'')) \<rparr>,
      printed = [] \<rparr>"
  unfolding check_style_elements_flat hashtag_flags(1,2)
  unfolding any_flags hashtag_flags(3)
  by (simp add: listed_def)

lemma run_emoji:
  "returned (check_style_elements ascii_lower draft_emoji tool_context) =
     [(''result'', VStr (lit ''fail'')),
      (''issues'', VList [lit ''NO emojis'']),
      (''message'', VStr (lit ''The post has some style issues.''))]"
  unfolding check_style_elements_flat emoji_flags(1,2)
  unfolding any_flags emoji_flags(3)
  by (simp add: listed_def)

lemma run_informal:
  "returned (check_style_elements ascii_lower draft_informal tool_context) =
     [(''result'', VStr (lit ''fail'')),
      (''issues'', VList [lit ''Professional tone (avoid informal language)'']),
      (''message'', VStr (lit ''The post has some style issues.''))]"
  unfolding check_style_elements_flat informal_flags(1,2)
  unfolding any_flags informal_flags(3)
  by (simp add: listed_def)

lemma run_complete_style:
  "check_style_elements ascii_lower draft_complete tool_context =
    \<lparr> returned =
        [(''result'', VStr (lit ''pass'')),
         (''issues'', VList []),
         (''message'', VStr (lit ''All style requirements are met.''))],
      ctx = tool_context,
      printed = [] \<rparr>"
  unfolding check_style_elements_flat complete_style_flags(1,2)
  unfolding any_flags complete_style_flags(3)
  by (simp add: listed_def)

lemma capitals_flags:
  "str_in (lit ''@AIwithBrandon'') draft_capitals = True"
  "str_in (lit ''@aiwithbrandon'') draft_capitals = False"
  "str_in (lit ''@aiwithbrandon'') (ascii_lower draft_capitals) = True"
  "str_in (ascii_lower (lit ''tool integration'')) (ascii_lower draft_capitals) = True"
  by (simp_all add: run_defs draft_capitals_def)

section \<open>The length check\<close>

lemma get_simps [simp]:
  "get [] k = None"
  "get ((k', v) # d) k = (if k' = k then Some v else get d k)"
  by (simp_all add: get_def)

text \<open>
  C1.  For a text of length \<open>L\<close>, \<open>count_characters\<close> returns the result \<open>pass\<close> exactly
  when \<open>1000 \<le> L \<le> 1500\<close>; below 1000 it returns \<open>fail\<close> with \<open>chars_needed = 1000 - L\<close>,
  above 1500 it returns \<open>fail\<close> with \<open>chars_to_remove = L - 1500\<close>; \<open>char_count\<close> is
  \<open>L\<close> in every case.
\<close>

theorem count_characters_result:
  "(get (returned (count_characters text tool_context)) ''result'' = Some (VStr (lit ''pass''))
      \<longleftrightarrow> 1000 \<le> length text \<and> length text \<le> 1500)
   \<and> (length text < 1000 \<longrightarrow>
        get (returned (count_characters text tool_context)) ''result''
          = Some (VStr (lit ''fail''))
        \<and> get (returned (count_characters text tool_context)) ''chars_needed''
          = Some (VInt (1000 - int (length text))))
   \<and> (length text > 1500 \<longrightarrow>
        get (returned (count_characters text tool_context)) ''result''
          = Some (VStr (lit ''fail''))
        \<and> get (returned (count_characters text tool_context)) ''chars_to_remove''
          = Some (VInt (int (length text) - 1500)))
   \<and> get (returned (count_characters text tool_context)) ''char_count''
        = Some (VInt (int (length text)))"
  by (simp add: count_characters_def MIN_LENGTH_def MAX_LENGTH_def Let_def)

theorem count_characters_result_witness:
  "length (replicate 800 (0x61::nat)) < 1000
   \<and> get (returned (count_characters (replicate 800 0x61) fresh_context)) ''result''
        = Some (VStr (lit ''fail''))
   \<and> get (returned (count_characters (replicate 800 0x61) fresh_context)) ''chars_needed''
        = Some (VInt 200)
   \<and> length (replicate 1600 (0x61::nat)) > 1500
   \<and> get (returned (count_characters (replicate 1600 0x61) fresh_context)) ''chars_to_remove''
        = Some (VInt 100)
   \<and> get (returned (count_characters (replicate 1000 0x61) fresh_context)) ''result''
        = Some (VStr (lit ''pass''))
   \<and> get (returned (count_characters (replicate 1500 0x61) fresh_context)) ''result''
        = Some (VStr (lit ''pass''))
   \<and> get (returned (count_characters (replicate 1500 0x61) fresh_context)) ''char_count''
        = Some (VInt 1500)"
  using count_characters_result [of "replicate 800 0x61" fresh_context]
    count_characters_result [of "replicate 1600 0x61" fresh_context]
    count_characters_result [of "replicate 1000 0x61" fresh_context]
    count_characters_result [of "replicate 1500 0x61" fresh_context]
  by simp

section \<open>The content check\<close>

text \<open>
  C2.  \<open>check_content_elements\<close> returns \<open>fail\<close> exactly when the mention
  \<open>@aiwithbrandon\<close> is absent from the text, or fewer than 4 of the capability phrases
  occur in it without regard to case, or no call-to-action phrase, no practical-application
  phrase or no enthusiasm phrase occurs in it; the phrases of the last three sets are
  looked for in the lower-cased text, as the capabilities are.  The list
  \<open>missing_elements\<close> names exactly the requirements that fail, each once, and is empty
  when the check passes.
\<close>

theorem check_content_elements_result:
  "\<exists>missing.
     get (returned (check_content_elements lower text tool_context)) ''missing_elements''
       = Some (VList missing)
     \<and> (get (returned (check_content_elements lower text tool_context)) ''result''
           = Some (VStr (lit ''fail''))
         \<longleftrightarrow>
           \<not> sublist (lit ''@aiwithbrandon'') text
           \<or> card {cap \<in> set adk_capabilities. sublist (lower cap) (lower text)} < 4
           \<or> \<not> (\<exists>k \<in> set call_to_action_keywords. sublist k (lower text))
           \<or> \<not> (\<exists>k \<in> set practical_application_keywords. sublist k (lower text))
           \<or> \<not> (\<exists>k \<in> set enthusiasm_keywords. sublist k (lower text)))
     \<and> (get (returned (check_content_elements lower text tool_context)) ''result''
           \<noteq> Some (VStr (lit ''fail''))
         \<longrightarrow> get (returned (check_content_elements lower text tool_context)) ''result''
               = Some (VStr (lit ''pass'')) \<and> missing = [])
     \<and> (lit ''Mentions @aiwithbrandon'' \<in> set missing
         \<longleftrightarrow> \<not> sublist (lit ''@aiwithbrandon'') text)
     \<and> (lit ''Lists at least 4 ADK capabilities'' \<in> set missing
         \<longleftrightarrow> card {cap \<in> set adk_capabilities. sublist (lower cap) (lower text)} < 4)
     \<and> (lit ''Has a clear call-to-action'' \<in> set missing
         \<longleftrightarrow> \<not> (\<exists>k \<in> set call_to_action_keywords. sublist k (lower text)))
     \<and> (lit ''Includes practical applications'' \<in> set missing
         \<longleftrightarrow> \<not> (\<exists>k \<in> set practical_application_keywords. sublist k (lower text)))
     \<and> (lit ''Shows genuine enthusiasm'' \<in> set missing
         \<longleftrightarrow> \<not> (\<exists>k \<in> set enthusiasm_keywords. sublist k (lower text)))
     \<and> set missing \<subseteq>
           {lit ''Mentions @aiwithbrandon'', lit ''Lists at least 4 ADK capabilities'',
            lit ''Has a clear call-to-action'', lit ''Includes practical applications'',
            lit ''Shows genuine enthusiasm''}
     \<and> distinct missing"
  unfolding sublist_str_in bex_keyword card_found_capabilities
  by (simp add: check_content_elements_flat Let_def)

theorem check_content_elements_result_witness:
  "get (returned (check_content_elements ascii_lower draft_two_missing fresh_context))
       ''result'' = Some (VStr (lit ''fail''))
   \<and> get (returned (check_content_elements ascii_lower draft_two_missing fresh_context))
       ''missing_elements''
       = Some (VList [lit ''Mentions @aiwithbrandon'', lit ''Shows genuine enthusiasm''])
   \<and> \<not> sublist (lit ''@aiwithbrandon'') draft_two_missing
   \<and> \<not> (\<exists>k \<in> set enthusiasm_keywords. sublist k (ascii_lower draft_two_missing))
   \<and> \<not> card {cap \<in> set adk_capabilities.
               sublist (ascii_lower cap) (ascii_lower draft_two_missing)} < 4
   \<and> (\<exists>k \<in> set call_to_action_keywords. sublist k (ascii_lower draft_two_missing))
   \<and> (\<exists>k \<in> set practical_application_keywords. sublist k (ascii_lower draft_two_missing))
   \<and> get (returned (check_content_elements ascii_lower draft_complete fresh_context))
       ''result'' = Some (VStr (lit ''pass''))
   \<and> get (returned (check_content_elements ascii_lower draft_complete fresh_context))
       ''missing_elements'' = Some (VList [])
   \<and> sublist (lit ''@aiwithbrandon'') draft_complete
   \<and> \<not> card {cap \<in> set adk_capabilities.
               sublist (ascii_lower cap) (ascii_lower draft_complete)} < 4
   \<and> (\<exists>k \<in> set enthusiasm_keywords. sublist k (ascii_lower draft_complete))"
  using check_content_elements_result [of ascii_lower draft_two_missing fresh_context]
    check_content_elements_result [of ascii_lower draft_complete fresh_context]
  unfolding run_two_missing run_complete_content
  by simp

section \<open>The style check\<close>

text \<open>
  C3.  \<open>check_style_elements\<close> returns \<open>fail\<close> exactly when the text has a character
  of the emoji literal, or the character \<open>#\<close>, or an informal token in its lower-cased
  form.  The list \<open>issues\<close> names exactly the rules that are violated, each once, and is
  empty when the check passes.
\<close>

theorem check_style_elements_result:
  "\<exists>issues.
     get (returned (check_style_elements lower text tool_context)) ''issues''
       = Some (VList issues)
     \<and> (get (returned (check_style_elements lower text tool_context)) ''result''
           = Some (VStr (lit ''fail''))
         \<longleftrightarrow>
           set text \<inter> set emoji_chars \<noteq> {}
           \<or> of_char CHR ''#'' \<in> set text
           \<or> (\<exists>k \<in> set informal_keywords. sublist k (lower text)))
     \<and> (get (returned (check_style_elements lower text tool_context)) ''result''
           \<noteq> Some (VStr (lit ''fail''))
         \<longrightarrow> get (returned (check_style_elements lower text tool_context)) ''result''
               = Some (VStr (lit ''pass'')) \<and> issues = [])
     \<and> (lit ''NO emojis'' \<in> set issues \<longleftrightarrow> set text \<inter> set emoji_chars \<noteq> {})
     \<and> (lit ''NO hashtags'' \<in> set issues \<longleftrightarrow> of_char CHR ''#'' \<in> set text)
     \<and> (lit ''Professional tone (avoid informal language)'' \<in> set issues
         \<longleftrightarrow> (\<exists>k \<in> set informal_keywords. sublist k (lower text)))
     \<and> set issues \<subseteq>
           {lit ''NO emojis'', lit ''NO hashtags'',
            lit ''Professional tone (avoid informal language)''}
     \<and> distinct issues"
  unfolding sublist_str_in bex_keyword emoji_check hashtag_check
  by (simp add: check_style_elements_flat Let_def)

theorem check_style_elements_result_witness:
  "get (returned (check_style_elements ascii_lower draft_hashtag fresh_context)) ''result''
       = Some (VStr (lit ''fail''))
   \<and> get (returned (check_style_elements ascii_lower draft_hashtag fresh_context)) ''issues''
       = Some (VList [lit ''NO hashtags''])
   \<and> of_char CHR ''#'' \<in> set draft_hashtag
   \<and> set draft_hashtag \<inter> set emoji_chars = {}
   \<and> \<not> (\<exists>k \<in> set informal_keywords. sublist k (ascii_lower draft_hashtag))
   \<and> get (returned (check_style_elements ascii_lower draft_emoji fresh_context)) ''issues''
       = Some (VList [lit ''NO emojis''])
   \<and> set draft_emoji \<inter> set emoji_chars \<noteq> {}
   \<and> get (returned (check_style_elements ascii_lower draft_informal fresh_context)) ''issues''
       = Some (VList [lit ''Professional tone (avoid informal language)''])
   \<and> (\<exists>k \<in> set informal_keywords. sublist k (ascii_lower draft_informal))
   \<and> get (returned (check_style_elements ascii_lower draft_complete fresh_context)) ''result''
       = Some (VStr (lit ''pass''))
   \<and> get (returned (check_style_elements ascii_lower draft_complete fresh_context)) ''issues''
       = Some (VList [])
   \<and> of_char CHR ''#'' \<notin> set draft_complete"
  using check_style_elements_result [of ascii_lower draft_hashtag fresh_context]
    check_style_elements_result [of ascii_lower draft_emoji fresh_context]
    check_style_elements_result [of ascii_lower draft_informal fresh_context]
    check_style_elements_result [of ascii_lower draft_complete fresh_context]
  unfolding run_hashtag run_emoji run_informal run_complete_style
  by simp

section \<open>The mention is compared with its case\<close>

text \<open>
  C9.  A text that has \<open>@AIwithBrandon\<close> but not the exact \<open>@aiwithbrandon\<close> fails the
  content check, and \<open>Mentions @aiwithbrandon\<close> is among its missing elements: the
  mention is looked for in the text as it is, not in its lower-cased form.
\<close>

theorem mention_case_sensitive:
  "sublist (lit ''@AIwithBrandon'') text \<Longrightarrow> \<not> sublist (lit ''@aiwithbrandon'') text \<Longrightarrow>
   get (returned (check_content_elements lower text tool_context)) ''result''
     = Some (VStr (lit ''fail''))
   \<and> (\<exists>missing.
        get (returned (check_content_elements lower text tool_context)) ''missing_elements''
          = Some (VList missing)
        \<and> lit ''Mentions @aiwithbrandon'' \<in> set missing)"
  unfolding sublist_str_in
  by (simp add: check_content_elements_flat Let_def)

theorem mention_case_sensitive_witness:
  "sublist (lit ''@AIwithBrandon'') draft_capitals
   \<and> \<not> sublist (lit ''@aiwithbrandon'') draft_capitals
   \<and> sublist (lit ''@aiwithbrandon'') (ascii_lower draft_capitals)
   \<and> sublist (ascii_lower (lit ''tool integration'')) (ascii_lower draft_capitals)
   \<and> get (returned (check_content_elements ascii_lower draft_capitals fresh_context))
        ''result'' = Some (VStr (lit ''fail''))
   \<and> (\<exists>missing.
        get (returned (check_content_elements ascii_lower draft_capitals fresh_context))
          ''missing_elements'' = Some (VList missing)
        \<and> lit ''Mentions @aiwithbrandon'' \<in> set missing)"
proof -
  have h1: "sublist (lit ''@AIwithBrandon'') draft_capitals"
    and h2: "\<not> sublist (lit ''@aiwithbrandon'') draft_capitals"
    and h3: "sublist (lit ''@aiwithbrandon'') (ascii_lower draft_capitals)"
    and h4: "sublist (ascii_lower (lit ''tool integration'')) (ascii_lower draft_capitals)"
    by (simp_all add: sublist_str_in capitals_flags)
  from mention_case_sensitive [OF h1 h2, of ascii_lower fresh_context] h1 h2 h3 h4
  show ?thesis by simp
qed

section \<open>What a check returns and what it leaves in the session\<close>

lemma count_characters_ctx:
  "ctx (count_characters text c) =
     c \<lparr> state := (state c)(''review_status'' \<mapsto>
            VStr (lit (if 1000 \<le> length text \<and> length text \<le> 1500 then ''pass'' else ''fail''))) \<rparr>"
  by (simp add: count_characters_def MIN_LENGTH_def MAX_LENGTH_def Let_def)

lemma length_check_result:
  "get (returned (count_characters text c)) ''result'' =
     Some (VStr (lit (if 1000 \<le> length text \<and> length text \<le> 1500 then ''pass'' else ''fail'')))"
  by (simp add: count_characters_def MIN_LENGTH_def MAX_LENGTH_def Let_def)

lemma count_characters_returned_ctx:
  "returned (count_characters text c) = returned (count_characters text c')"
  by (simp add: count_characters_def Let_def)

lemma count_characters_printed_ctx:
  "printed (count_characters text c) = printed (count_characters text c')"
  by (simp add: count_characters_def Let_def)

lemma check_content_elements_returned_ctx:
  "returned (check_content_elements lower text c) = returned (check_content_elements lower text c')"
  by (simp add: check_content_elements_flat Let_def)

lemma check_style_elements_returned_ctx:
  "returned (check_style_elements lower text c) = returned (check_style_elements lower text c')"
  by (simp add: check_style_elements_flat Let_def)

lemma content_check_cases:
  "get (returned (check_content_elements lower text c)) ''result'' = Some (VStr (lit ''fail''))
     \<and> ctx (check_content_elements lower text c)
         = c \<lparr> state := (state c)(''review_status'' \<mapsto> VStr (lit ''fail'')) \<rparr>
   \<or> get (returned (check_content_elements lower text c)) ''result'' = Some (VStr (lit ''pass''))
     \<and> ctx (check_content_elements lower text c) = c"
  by (simp add: check_content_elements_flat Let_def)

lemma style_check_cases:
  "get (returned (check_style_elements lower text c)) ''result'' = Some (VStr (lit ''fail''))
     \<and> ctx (check_style_elements lower text c)
         = c \<lparr> state := (state c)(''review_status'' \<mapsto> VStr (lit ''fail'')) \<rparr>
   \<or> get (returned (check_style_elements lower text c)) ''result'' = Some (VStr (lit ''pass''))
     \<and> ctx (check_style_elements lower text c) = c"
  by (simp add: check_style_elements_flat Let_def)

lemma check_content_elements_printed: "printed (check_content_elements lower text c) = []"
  by (simp add: check_content_elements_flat Let_def)

lemma check_style_elements_printed: "printed (check_style_elements lower text c) = []"
  by (simp add: check_style_elements_flat Let_def)

text \<open>
  C10.  \<open>count_characters\<close> writes \<open>review_status\<close> on every call, with its own
  result, \<open>pass\<close> or \<open>fail\<close>.  \<open>check_content_elements\<close> and
  \<open>check_style_elements\<close> write it only when they fail, and then with \<open>fail\<close>; when
  they pass they leave the context as it was, so that an earlier \<open>review_status\<close>
  persists.
\<close>

theorem validators_write_review_status:
  "state (ctx (count_characters text c)) ''review_status''
     = get (returned (count_characters text c)) ''result''
   \<and> (get (returned (count_characters text c)) ''result'' = Some (VStr (lit ''pass''))
        \<or> get (returned (count_characters text c)) ''result'' = Some (VStr (lit ''fail'')))
   \<and> (get (returned (check_content_elements lower text c)) ''result''
          = Some (VStr (lit ''fail''))
        \<longrightarrow> state (ctx (check_content_elements lower text c)) ''review_status''
              = Some (VStr (lit ''fail'')))
   \<and> (get (returned (check_content_elements lower text c)) ''result''
          = Some (VStr (lit ''pass''))
        \<longrightarrow> ctx (check_content_elements lower text c) = c)
   \<and> (get (returned (check_style_elements lower text c)) ''result''
          = Some (VStr (lit ''fail''))
        \<longrightarrow> state (ctx (check_style_elements lower text c)) ''review_status''
              = Some (VStr (lit ''fail'')))
   \<and> (get (returned (check_style_elements lower text c)) ''result''
          = Some (VStr (lit ''pass''))
        \<longrightarrow> ctx (check_style_elements lower text c) = c)"
  using content_check_cases [of lower "text" c]
    style_check_cases [of lower "text" c]
  by (auto simp: count_characters_ctx length_check_result)

text \<open>
  C5, as amended.  The validators do write to the shared session state, but to its
  \<open>review_status\<close> entry only: every other entry of the state, and the actions with the
  escalation flag, are after the call what they were before it.
\<close>

theorem validators_frame:
  "(\<forall>k. k \<noteq> ''review_status'' \<longrightarrow> state (ctx (count_characters text c)) k = state c k)
   \<and> actions (ctx (count_characters text c)) = actions c
   \<and> (\<forall>k. k \<noteq> ''review_status'' \<longrightarrow>
          state (ctx (check_content_elements lower text c)) k = state c k)
   \<and> actions (ctx (check_content_elements lower text c)) = actions c
   \<and> (\<forall>k. k \<noteq> ''review_status'' \<longrightarrow>
          state (ctx (check_style_elements lower text c)) k = state c k)
   \<and> actions (ctx (check_style_elements lower text c)) = actions c"
  using content_check_cases [of lower "text" c]
    style_check_cases [of lower "text" c]
  by (auto simp: count_characters_ctx)

text \<open>
  C7.  The three validators return a well-formed dictionary for every text: a result that
  is \<open>pass\<close> or \<open>fail\<close>, a message, and their details (the count, the missing elements,
  the issues).  The source has no branch that raises, so the embedding has no error value.
  The empty text fails the length check in every context, with \<open>chars_needed = 1000\<close>.
\<close>

theorem validators_total:
  "(get (returned (count_characters text c)) ''result'' = Some (VStr (lit ''pass''))
      \<or> get (returned (count_characters text c)) ''result'' = Some (VStr (lit ''fail'')))
   \<and> (\<exists>m. get (returned (count_characters text c)) ''message'' = Some (VStr m))
   \<and> (\<exists>n. get (returned (count_characters text c)) ''char_count'' = Some (VInt n))
   \<and> (get (returned (check_content_elements lower text c)) ''result''
         = Some (VStr (lit ''pass''))
      \<or> get (returned (check_content_elements lower text c)) ''result''
         = Some (VStr (lit ''fail'')))
   \<and> (\<exists>m. get (returned (check_content_elements lower text c)) ''message'' = Some (VStr m))
   \<and> (\<exists>ms. get (returned (check_content_elements lower text c)) ''missing_elements''
         = Some (VList ms))
   \<and> (get (returned (check_style_elements lower text c)) ''result''
         = Some (VStr (lit ''pass''))
      \<or> get (returned (check_style_elements lower text c)) ''result''
         = Some (VStr (lit ''fail'')))
   \<and> (\<exists>m. get (returned (check_style_elements lower text c)) ''message'' = Some (VStr m))
   \<and> (\<exists>is. get (returned (check_style_elements lower text c)) ''issues'' = Some (VList is))
   \<and> get (returned (count_characters [] c)) ''result'' = Some (VStr (lit ''fail''))
   \<and> get (returned (count_characters [] c)) ''chars_needed'' = Some (VInt 1000)
   \<and> get (returned (count_characters [] c)) ''char_count'' = Some (VInt 0)"
  by (simp add: count_characters_def MIN_LENGTH_def MAX_LENGTH_def
      check_content_elements_flat check_style_elements_flat Let_def)

text \<open>
  C8.  What a validator returns is a function of the text alone (given \<^verbatim>\<open>str.lower\<close>): it
  does not depend on the context; running the validator again on the context that a first
  run left gives the same call, value and context; and a run on another text in between
  does not change what is returned.
\<close>

theorem validators_deterministic:
  "returned (count_characters text c) = returned (count_characters text c')
   \<and> returned (check_content_elements lower text c)
       = returned (check_content_elements lower text c')
   \<and> returned (check_style_elements lower text c)
       = returned (check_style_elements lower text c')
   \<and> count_characters text (ctx (count_characters text c)) = count_characters text c
   \<and> check_content_elements lower text (ctx (check_content_elements lower text c))
       = check_content_elements lower text c
   \<and> check_style_elements lower text (ctx (check_style_elements lower text c))
       = check_style_elements lower text c
   \<and> returned (count_characters text (ctx (count_characters other c)))
       = returned (count_characters text c)
   \<and> returned (check_content_elements lower text (ctx (check_content_elements lower other c)))
       = returned (check_content_elements lower text c)
   \<and> returned (check_style_elements lower text (ctx (check_style_elements lower other c)))
       = returned (check_style_elements lower text c)"
  by (simp add: count_characters_def MIN_LENGTH_def MAX_LENGTH_def
      check_content_elements_flat check_style_elements_flat Let_def)

section \<open>The escalation flag under the validators\<close>




lemma draft_lengths:
  "length draft_two_missing = 98"
  "length draft_complete = 161"
  "length draft_long = 1061"
  by (simp_all add: draft_two_missing_def draft_complete_def draft_long_def lit_def)

section \<open>Runs on sessions\<close>

theorem validators_write_review_status_witness:
  "state session_context ''review_status'' = Some (VStr (lit ''fail''))
   \<and> get (returned (check_content_elements ascii_lower draft_complete session_context))
        ''result'' = Some (VStr (lit ''pass''))
   \<and> state (ctx (check_content_elements ascii_lower draft_complete session_context))
        ''review_status'' = Some (VStr (lit ''fail''))
   \<and> get (returned (check_style_elements ascii_lower draft_complete session_context))
        ''result'' = Some (VStr (lit ''pass''))
   \<and> state (ctx (check_style_elements ascii_lower draft_complete session_context))
        ''review_status'' = Some (VStr (lit ''fail''))
   \<and> get (returned (count_characters draft_long session_context)) ''result''
        = Some (VStr (lit ''pass''))
   \<and> state (ctx (count_characters draft_long session_context)) ''review_status''
        = Some (VStr (lit ''pass''))
   \<and> get (returned (check_content_elements ascii_lower draft_two_missing fresh_context))
        ''result'' = Some (VStr (lit ''fail''))
   \<and> state fresh_context ''review_status'' = None
   \<and> state (ctx (check_content_elements ascii_lower draft_two_missing fresh_context))
        ''review_status'' = Some (VStr (lit ''fail''))
   \<and> get (returned (check_style_elements ascii_lower draft_hashtag fresh_context))
        ''result'' = Some (VStr (lit ''fail''))
   \<and> state (ctx (check_style_elements ascii_lower draft_hashtag fresh_context))
        ''review_status'' = Some (VStr (lit ''fail''))"
proof -
  have pass: "get (returned (check_content_elements ascii_lower draft_complete session_context))
        ''result'' = Some (VStr (lit ''pass''))"
    "get (returned (check_style_elements ascii_lower draft_complete session_context))
        ''result'' = Some (VStr (lit ''pass''))"
    by (simp_all add: run_complete_content run_complete_style)
  have fail: "get (returned (check_content_elements ascii_lower draft_two_missing fresh_context))
        ''result'' = Some (VStr (lit ''fail''))"
    "get (returned (check_style_elements ascii_lower draft_hashtag fresh_context))
        ''result'' = Some (VStr (lit ''fail''))"
    by (simp_all add: run_two_missing run_hashtag)
  have len: "get (returned (count_characters draft_long session_context)) ''result''
        = Some (VStr (lit ''pass''))"
    by (simp add: length_check_result draft_lengths)
  have before: "state session_context ''review_status'' = Some (VStr (lit ''fail''))"
    "state fresh_context ''review_status'' = None"
    by (simp_all add: session_context_def fresh_context_def)
  from validators_write_review_status [of draft_long session_context ascii_lower]
    validators_write_review_status [of draft_complete session_context ascii_lower]
    validators_write_review_status [of draft_two_missing fresh_context ascii_lower]
    validators_write_review_status [of draft_hashtag fresh_context ascii_lower]
    pass fail len before
  show ?thesis by simp
qed

theorem validators_mutate_state_counterexample:
  "state (ctx (count_characters [] fresh_context)) \<noteq> state fresh_context
   \<and> state fresh_context ''review_status'' = None
   \<and> state (ctx (count_characters [] fresh_context)) ''review_status''
        = Some (VStr (lit ''fail''))
   \<and> state (ctx (check_content_elements ascii_lower draft_two_missing fresh_context))
        \<noteq> state fresh_context
   \<and> state (ctx (check_style_elements ascii_lower draft_hashtag fresh_context))
        \<noteq> state fresh_context"
proof -
  have a: "state fresh_context ''review_status'' = None"
    by (simp add: fresh_context_def)
  have b: "state (ctx (count_characters [] fresh_context)) ''review_status''
      = Some (VStr (lit ''fail''))"
    by (simp add: count_characters_ctx)
  have c: "state (ctx (check_content_elements ascii_lower draft_two_missing fresh_context))
      ''review_status'' = Some (VStr (lit ''fail''))"
    by (simp add: run_two_missing)
  have d: "state (ctx (check_style_elements ascii_lower draft_hashtag fresh_context))
      ''review_status'' = Some (VStr (lit ''fail''))"
    by (simp add: run_hashtag)
  from a b c d show ?thesis by auto
qed

theorem validators_frame_witness:
  "''topic'' \<noteq> ''review_status''
   \<and> state session_context ''topic'' = Some (VStr (lit ''Agent Development Kit''))
   \<and> state (ctx (count_characters draft_two_missing session_context)) ''topic''
        = Some (VStr (lit ''Agent Development Kit''))
   \<and> state (ctx (check_content_elements ascii_lower draft_two_missing session_context))
        ''topic'' = Some (VStr (lit ''Agent Development Kit''))
   \<and> state (ctx (check_style_elements ascii_lower draft_hashtag session_context)) ''topic''
        = Some (VStr (lit ''Agent Development Kit''))
   \<and> \<not> escalate (actions (ctx (count_characters draft_two_missing session_context)))
   \<and> \<not> escalate (actions (ctx (check_content_elements ascii_lower draft_two_missing
          session_context)))
   \<and> \<not> escalate (actions (ctx (check_style_elements ascii_lower draft_hashtag
          session_context)))"
proof -
  have before: "state session_context ''topic'' = Some (VStr (lit ''Agent Development Kit''))"
    "\<not> escalate (actions session_context)"
    by (simp_all add: session_context_def)
  from validators_frame [of draft_two_missing session_context ascii_lower]
    validators_frame [of draft_hashtag session_context ascii_lower] before
  show ?thesis by simp
qed

section \<open>The termination signal\<close>




lemma loop_steps:
  "refinement_loop generate reviewing 0 s = (Not_accepted, s)"
  "generate (topic s) (last_feedback s) = None \<Longrightarrow>
     refinement_loop generate reviewing (Suc n) s = (Capability_failure, s)"
  "generate (topic s) (last_feedback s) = Some draft \<Longrightarrow> reviewing draft = None \<Longrightarrow>
     refinement_loop generate reviewing (Suc n) s
       = (Capability_failure, s \<lparr> current_post := draft \<rparr>)"
  "generate (topic s) (last_feedback s) = Some draft \<Longrightarrow>
   reviewing draft = Some (Termination_signal message) \<Longrightarrow>
     refinement_loop generate reviewing (Suc n) s
       = (Accepted, s \<lparr> current_post := draft, last_feedback := Some message,
                        iteration_count := Suc (iteration_count s),
                        termination_flag := True \<rparr>)"
  "generate (topic s) (last_feedback s) = Some draft \<Longrightarrow>
   reviewing draft = Some (Feedback_text fb) \<Longrightarrow>
     refinement_loop generate reviewing (Suc n) s
       = refinement_loop generate reviewing n
           (s \<lparr> current_post := draft, last_feedback := Some fb,
                iteration_count := Suc (iteration_count s),
                termination_flag := False \<rparr>)"
  by simp_all










end
